theory Spec2Isabelle
  imports Main
begin

section \<open>The client stream of \<^verbatim>\<open>client/rpc_stream.go\<close>\<close>

text \<open>
  The file implements one type, \<^verbatim>\<open>rpcStream\<close>, with the methods \<^verbatim>\<open>isClosed\<close>,
  \<^verbatim>\<open>Send\<close>, \<^verbatim>\<open>Recv\<close>, \<^verbatim>\<open>Error\<close> and \<^verbatim>\<open>Close\<close>. The model is a state record
  for the struct and one function per method, each taking the stream before the call and
  returning the method's result with the stream after it.

  Everything the stream does to the outside goes through two collaborators it holds: the
  codec (the transport) and the release hook. Both are opaque to the file. The codec is
  modelled as an arbitrary deterministic state machine: a record of its four methods over
  a codec state of any type. Each call the stream makes on the codec or on the release
  hook is appended to a trace kept in the model's state, in the order the source makes
  them, so that what the stream did to its collaborators can be read back.

  The string constant \<^verbatim>\<open>lastStreamResponseError\<close> (the reserved end-of-stream error
  string) is declared outside the file; the functions that use it take it as the parameter
  \<open>eos\<close>.

  The diagnostic output of the file (\<^verbatim>\<open>fmt.Printf\<close>, and the \<^verbatim>\<open>codec.String()\<close> calls
  made only to format it) is not modelled. The functions below describe calls that do not
  overlap in time; where a method gives up the lock in the middle (\<^verbatim>\<open>Recv\<close> around
  its two reads, \<^verbatim>\<open>Close\<close> after the closing transition) the part run under the lock
  is a function of its own, so that a statement can also be made about a part that runs
  after another call has changed the stream.
\<close>

subsection \<open>Errors\<close>

text \<open>
  Modelled from the spec: the variable \<^verbatim>\<open>errShutdown\<close> (the stream-closed error) and
  the type \<^verbatim>\<open>serverError\<close> (a remote failure carrying the peer's message text) are
  declared elsewhere in the package, outside this file. With them, the Go
  \<^verbatim>\<open>error\<close> values that occur in the file are the standard library's
  \<^verbatim>\<open>io.EOF\<close> and \<^verbatim>\<open>io.ErrUnexpectedEOF\<close>, and any other error a codec may
  return, which the stream passes on without looking inside. The values are pairwise
  different, as the file's one comparison (\<^verbatim>\<open>err == io.EOF\<close>) needs. A Go
  \<^verbatim>\<open>error\<close> that may be \<^verbatim>\<open>nil\<close> is an \<open>error option\<close>.
\<close>

datatype error =
    errShutdown
  | io_EOF
  | io_ErrUnexpectedEOF
  | serverError string
  | otherError string

subsection \<open>Frames and the call descriptor\<close>

text \<open>
  Modelled from the spec: \<^verbatim>\<open>codec.Message\<close> and \<^verbatim>\<open>codec.MessageType\<close> are declared
  in the codec package, outside this file. The fields are the ones the file sets or reads
  (correlation id, target service, method, endpoint, frame type, error string), the frame
  types the three the file names.
\<close>

datatype MessageType = codec_Error | codec_Request | codec_Response

record Message =
  Id :: string
  Target :: string
  Method :: string
  Endpoint :: string
  Type :: MessageType
  Error_m :: string

text \<open>
  Modelled from the spec: the \<^verbatim>\<open>Request\<close> interface is declared outside this file; the
  stream only calls its accessors \<^verbatim>\<open>Service()\<close>, \<^verbatim>\<open>Method()\<close> and
  \<^verbatim>\<open>Endpoint()\<close>, which are read-only views of an immutable descriptor.
\<close>

record Request =
  Service :: string
  Method_r :: string
  Endpoint_r :: string

subsection \<open>The codec and the trace of calls\<close>

text \<open>
  The \<^verbatim>\<open>codec.Codec\<close> interface, as far as the stream calls it. \<open>'c\<close> is the state
  of the transport, \<open>'b\<close> the type of message bodies; a Go \<^verbatim>\<open>interface{}\<close> that may
  be \<^verbatim>\<open>nil\<close> is a \<open>'b option\<close>. \<^verbatim>\<open>ReadHeader\<close> is always called on a fresh zero
  \<^verbatim>\<open>Message\<close>, so the method returns the header the codec left there. What
  \<^verbatim>\<open>ReadBody\<close> decodes lands in the caller's memory, which the stream never reads.
\<close>

record ('c, 'b) Codec =
  Write :: "Message \<Rightarrow> 'b option \<Rightarrow> 'c \<Rightarrow> error option \<times> 'c"
  ReadHeader :: "MessageType \<Rightarrow> 'c \<Rightarrow> (error option \<times> Message) \<times> 'c"
  ReadBody :: "'b option \<Rightarrow> 'c \<Rightarrow> error option \<times> 'c"
  Close_c :: "'c \<Rightarrow> error option \<times> 'c"

datatype 'b event =
    EvWrite Message "'b option"
  | EvReadHeader MessageType
  | EvReadBody "'b option"
  | EvClose
  | EvRelease "error option"

subsection \<open>The stream\<close>

text \<open>
  The struct \<^verbatim>\<open>rpcStream\<close>. The channel \<^verbatim>\<open>closed\<close> is only ever closed, never sent
  on, so it is a flag. \<open>codec\<close> is the state of the codec the stream holds. The fields
  \<^verbatim>\<open>response\<close> and \<^verbatim>\<open>context\<close> are only handed out by their getters. \<open>trace\<close>
  is not a field of the struct: it lists the calls made so far on the codec and on the
  \<^verbatim>\<open>release\<close> function.
\<close>

record ('c, 'b) rpcStream =
  stream_id :: string
  closed :: bool
  err :: "error option"
  request :: Request
  codec :: 'c
  sendEOS :: bool
  trace :: "'b event list"

definition isClosed :: "('c, 'b) rpcStream \<Rightarrow> bool" where
  "isClosed r = closed r"

text \<open>The four codec calls and the release call, each recorded in the trace.\<close>

definition call_Write ::
  "('c, 'b) Codec \<Rightarrow> Message \<Rightarrow> 'b option \<Rightarrow> ('c, 'b) rpcStream \<Rightarrow> error option \<times> ('c, 'b) rpcStream" where
  "call_Write cdc m b r =
     (case Write cdc m b (codec r) of
        (e, c) \<Rightarrow> (e, r\<lparr>codec := c, trace := trace r @ [EvWrite m b]\<rparr>))"

definition call_ReadHeader ::
  "('c, 'b) Codec \<Rightarrow> MessageType \<Rightarrow> ('c, 'b) rpcStream \<Rightarrow> error option \<times> Message \<times> ('c, 'b) rpcStream" where
  "call_ReadHeader cdc t r =
     (case ReadHeader cdc t (codec r) of
        ((e, resp), c) \<Rightarrow> (e, resp, r\<lparr>codec := c, trace := trace r @ [EvReadHeader t]\<rparr>))"

definition call_ReadBody ::
  "('c, 'b) Codec \<Rightarrow> 'b option \<Rightarrow> ('c, 'b) rpcStream \<Rightarrow> error option \<times> ('c, 'b) rpcStream" where
  "call_ReadBody cdc b r =
     (case ReadBody cdc b (codec r) of
        (e, c) \<Rightarrow> (e, r\<lparr>codec := c, trace := trace r @ [EvReadBody b]\<rparr>))"

definition call_Close ::
  "('c, 'b) Codec \<Rightarrow> ('c, 'b) rpcStream \<Rightarrow> error option \<times> ('c, 'b) rpcStream" where
  "call_Close cdc r =
     (case Close_c cdc (codec r) of
        (e, c) \<Rightarrow> (e, r\<lparr>codec := c, trace := trace r @ [EvClose]\<rparr>))"

definition call_release :: "error option \<Rightarrow> ('c, 'b) rpcStream \<Rightarrow> ('c, 'b) rpcStream" where
  "call_release e r = r\<lparr>trace := trace r @ [EvRelease e]\<rparr>"

subsubsection \<open>Send\<close>

definition Send ::
  "('c, 'b) Codec \<Rightarrow> 'b option \<Rightarrow> ('c, 'b) rpcStream \<Rightarrow> error option \<times> ('c, 'b) rpcStream" where
  "Send cdc msg r =
     (if isClosed r then (Some errShutdown, r\<lparr>err := Some errShutdown\<rparr>)
      else
        let req = \<lparr>Id = stream_id r, Target = Service (request r),
                   Method = Method_r (request r), Endpoint = Endpoint_r (request r),
                   Type = codec_Request, Error_m = []\<rparr>
        in case call_Write cdc req msg r of
             (Some e, r1) \<Rightarrow> (Some e, r1\<lparr>err := Some e\<rparr>)
           | (None, r1) \<Rightarrow> (None, r1))"

subsubsection \<open>Recv\<close>

text \<open>
  Lines 94 to 118: what \<^verbatim>\<open>Recv\<close> does, with the lock taken again, once
  \<^verbatim>\<open>ReadHeader\<close> has returned \<open>e\<close> and left \<open>resp\<close>. The result is either the
  return of \<^verbatim>\<open>Recv\<close> (\<open>Inl\<close>) or the target of the body read that follows
  (\<open>Inr\<close>): \<^verbatim>\<open>nil\<close> after an error header, the caller's \<open>msg\<close> otherwise. \<open>eos\<close>
  is the constant \<^verbatim>\<open>lastStreamResponseError\<close>, declared outside this file.
\<close>

definition Recv_header ::
  "string \<Rightarrow> 'b option \<Rightarrow> error option \<Rightarrow> Message \<Rightarrow> ('c, 'b) rpcStream \<Rightarrow>
     (error option \<times> ('c, 'b) rpcStream) + ('b option \<times> ('c, 'b) rpcStream)" where
  "Recv_header eos msg e resp r =
     (case e of
        Some er \<Rightarrow>
          if er = io_EOF \<and> \<not> isClosed r
          then Inl (Some io_ErrUnexpectedEOF, r\<lparr>err := Some io_ErrUnexpectedEOF\<rparr>)
          else Inl (Some er, r\<lparr>err := Some er\<rparr>)
      | None \<Rightarrow>
          if length (Error_m resp) > 0 then
            (if Error_m resp \<noteq> eos
             then Inr (None, r\<lparr>err := Some (serverError (Error_m resp))\<rparr>)
             else Inr (None, r\<lparr>err := Some io_EOF\<rparr>))
          else Inr (msg, r))"

text \<open>
  Lines 120 to 124 and 128 to 136: after \<^verbatim>\<open>ReadBody\<close> has returned \<open>e\<close>, record it
  if it is an error and return the stream's \<^verbatim>\<open>err\<close> field.
\<close>

definition Recv_body ::
  "error option \<Rightarrow> ('c, 'b) rpcStream \<Rightarrow> error option \<times> ('c, 'b) rpcStream" where
  "Recv_body e r =
     (let r1 = (case e of Some er \<Rightarrow> r\<lparr>err := Some er\<rparr> | None \<Rightarrow> r)
      in (err r1, r1))"

definition Recv ::
  "('c, 'b) Codec \<Rightarrow> string \<Rightarrow> 'b option \<Rightarrow> ('c, 'b) rpcStream \<Rightarrow> error option \<times> ('c, 'b) rpcStream" where
  "Recv cdc eos msg r =
     (if isClosed r then (Some errShutdown, r\<lparr>err := Some errShutdown\<rparr>)
      else
        case call_ReadHeader cdc codec_Response r of
          (e, resp, r1) \<Rightarrow>
            (case Recv_header eos msg e resp r1 of
               Inl ret \<Rightarrow> ret
             | Inr (target, r2) \<Rightarrow>
                 (case call_ReadBody cdc target r2 of
                    (e2, r3) \<Rightarrow> Recv_body e2 r3)))"

subsubsection \<open>Error and Close\<close>

definition Error :: "('c, 'b) rpcStream \<Rightarrow> error option" where
  "Error r = err r"

text \<open>
  Lines 156 to 176: the part of \<^verbatim>\<open>Close\<close> that runs, outside the lock, after the
  closing transition.
\<close>

definition Close_rest ::
  "('c, 'b) Codec \<Rightarrow> string \<Rightarrow> ('c, 'b) rpcStream \<Rightarrow> error option \<times> ('c, 'b) rpcStream" where
  "Close_rest cdc eos r =
     (let r1 = (if sendEOS r
                then snd (call_Write cdc
                       \<lparr>Id = stream_id r, Target = Service (request r),
                        Method = Method_r (request r), Endpoint = Endpoint_r (request r),
                        Type = codec_Error, Error_m = eos\<rparr> None r)
                else r)
      in case call_Close cdc r1 of
           (e, r2) \<Rightarrow> (e, call_release (Error r2) r2))"

definition Close ::
  "('c, 'b) Codec \<Rightarrow> string \<Rightarrow> ('c, 'b) rpcStream \<Rightarrow> error option \<times> ('c, 'b) rpcStream" where
  "Close cdc eos r =
     (if closed r then (None, r)
      else Close_rest cdc eos (r\<lparr>closed := True\<rparr>))"

subsection \<open>A caller issuing calls one after the other\<close>

datatype 'b op = OpSend "'b option" | OpRecv "'b option" | OpClose

fun step :: "('c, 'b) Codec \<Rightarrow> string \<Rightarrow> 'b op \<Rightarrow> ('c, 'b) rpcStream \<Rightarrow> ('c, 'b) rpcStream" where
  "step cdc eos (OpSend msg) r = snd (Send cdc msg r)"
| "step cdc eos (OpRecv msg) r = snd (Recv cdc eos msg r)"
| "step cdc eos OpClose r = snd (Close cdc eos r)"

fun run :: "('c, 'b) Codec \<Rightarrow> string \<Rightarrow> 'b op list \<Rightarrow> ('c, 'b) rpcStream \<Rightarrow> ('c, 'b) rpcStream" where
  "run cdc eos [] r = r"
| "run cdc eos (x # xs) r = run cdc eos xs (step cdc eos x r)"

text \<open>The arguments the release hook has been called with, in order.\<close>

fun releases :: "'b event list \<Rightarrow> error option list" where
  "releases [] = []"
| "releases (EvRelease e # evs) = e # releases evs"
| "releases (_ # evs) = releases evs"

text \<open>Consecutive \<^verbatim>\<open>Recv\<close> calls, with the results they return in order.\<close>

fun Recvs ::
  "('c, 'b) Codec \<Rightarrow> string \<Rightarrow> 'b option list \<Rightarrow> ('c, 'b) rpcStream \<Rightarrow>
     error option list \<times> ('c, 'b) rpcStream" where
  "Recvs cdc eos [] r = ([], r)"
| "Recvs cdc eos (m # ms) r =
     (case Recv cdc eos m r of
        (e, r1) \<Rightarrow> (case Recvs cdc eos ms r1 of (es, r2) \<Rightarrow> (e # es, r2)))"

subsection \<open>Assumptions on the transport\<close>

text \<open>
  A property of the codec, not of the stream: from the codec state \<open>c\<close> on, the transport
  answers the reads of the next \<^verbatim>\<open>Recv\<close> calls (one per target in the list) without a
  failure and without a remote error. Each header read succeeds and carries an empty error
  string or the end-of-stream string, and the body read that \<^verbatim>\<open>Recv\<close> then makes
  (into the target after an empty error string, a discard otherwise) succeeds.
\<close>

fun delivers :: "('c, 'b) Codec \<Rightarrow> string \<Rightarrow> 'b option list \<Rightarrow> 'c \<Rightarrow> bool" where
  "delivers cdc eos [] c = True"
| "delivers cdc eos (m # ms) c =
     (case ReadHeader cdc codec_Response c of
        ((Some e, resp), c1) \<Rightarrow> False
      | ((None, resp), c1) \<Rightarrow>
          (Error_m resp = [] \<or> Error_m resp = eos) \<and>
          (case ReadBody cdc (if Error_m resp = [] then m else None) c1 of
             (Some e, c2) \<Rightarrow> False
           | (None, c2) \<Rightarrow> delivers cdc eos ms c2))"

subsection \<open>A scripted transport and a fresh stream, for concrete runs\<close>

text \<open>
  A codec whose state is the list of the answers it will give, one per call, in order:
  success, a failure with the given error, or (for a header read) a header with the given
  error string. Once the script is used up, a header read reports \<^verbatim>\<open>io.EOF\<close> and every
  other call succeeds.
\<close>

datatype reply = Ok | Fail error | Header string

fun reply_error :: "reply \<Rightarrow> error option" where
  "reply_error Ok = None"
| "reply_error (Fail e) = Some e"
| "reply_error (Header s) = None"

fun reply_header :: "MessageType \<Rightarrow> reply \<Rightarrow> Message" where
  "reply_header t (Header s) =
     \<lparr>Id = [], Target = [], Method = [], Endpoint = [], Type = t, Error_m = s\<rparr>"
| "reply_header t _ =
     \<lparr>Id = [], Target = [], Method = [], Endpoint = [], Type = t, Error_m = []\<rparr>"

fun answer :: "reply list \<Rightarrow> error option \<times> reply list" where
  "answer [] = (None, [])"
| "answer (x # xs) = (reply_error x, xs)"

fun answer_header :: "MessageType \<Rightarrow> reply list \<Rightarrow> (error option \<times> Message) \<times> reply list" where
  "answer_header t [] = ((Some io_EOF, reply_header t Ok), [])"
| "answer_header t (x # xs) = ((reply_error x, reply_header t x), xs)"

definition scripted :: "(reply list, string) Codec" where
  "scripted =
     \<lparr>Write = (\<lambda>m b. answer), ReadHeader = answer_header,
      ReadBody = (\<lambda>b. answer), Close_c = answer\<rparr>"

definition fresh :: "bool \<Rightarrow> reply list \<Rightarrow> (reply list, string) rpcStream" where
  "fresh eosflag script =
     \<lparr>stream_id = ''7'', closed = False, err = None,
      request = \<lparr>Service = ''bank'', Method_r = ''Bank.Transfer'', Endpoint_r = ''Bank.Transfer''\<rparr>,
      codec = script, sendEOS = eosflag, trace = []\<rparr>"

section \<open>Basic facts\<close>

lemma Send_closed:
  "closed r \<Longrightarrow> Send cdc msg r = (Some errShutdown, r\<lparr>err := Some errShutdown\<rparr>)"
  by (simp add: Send_def isClosed_def)

lemma Recv_closed:
  "closed r \<Longrightarrow> Recv cdc eos msg r = (Some errShutdown, r\<lparr>err := Some errShutdown\<rparr>)"
  by (simp add: Recv_def isClosed_def)

lemma closed_Send: "closed (snd (Send cdc msg r)) = closed r"
  by (auto simp: Send_def call_Write_def Let_def split: prod.splits option.splits)

lemma closed_Recv: "closed (snd (Recv cdc eos msg r)) = closed r"
  by (auto simp: Recv_def Recv_header_def Recv_body_def call_ReadHeader_def call_ReadBody_def
      Let_def split: prod.splits option.splits sum.splits if_splits)

lemma closed_Close: "closed (snd (Close cdc eos r))"
  by (auto simp: Close_def Close_rest_def call_Write_def call_Close_def call_release_def
      Let_def split: prod.splits)

lemma closed_step: "closed r \<Longrightarrow> closed (step cdc eos x r)"
  by (cases x) (simp_all add: closed_Send closed_Recv closed_Close)

lemma closed_run: "closed r \<Longrightarrow> closed (run cdc eos xs r)"
  by (induction xs arbitrary: r) (simp_all add: closed_step)

subsection \<open>What each call does on an open stream\<close>

lemma Send_open:
  assumes "\<not> closed r"
    and "Write cdc \<lparr>Id = stream_id r, Target = Service (request r),
           Method = Method_r (request r), Endpoint = Endpoint_r (request r),
           Type = codec_Request, Error_m = []\<rparr> msg (codec r) = (e, c1)"
  shows "Send cdc msg r =
     (e, r\<lparr>err := (case e of Some er \<Rightarrow> Some er | None \<Rightarrow> err r), codec := c1,
           trace := trace r @ [EvWrite \<lparr>Id = stream_id r, Target = Service (request r),
             Method = Method_r (request r), Endpoint = Endpoint_r (request r),
             Type = codec_Request, Error_m = []\<rparr> msg]\<rparr>)"
  using assms by (cases e) (simp_all add: Send_def isClosed_def call_Write_def Let_def)

lemma Recv_header_failed:
  assumes "\<not> closed r"
    and "ReadHeader cdc codec_Response (codec r) = ((Some e, resp), c1)"
  shows "Recv cdc eos msg r =
     (Some (if e = io_EOF then io_ErrUnexpectedEOF else e),
      r\<lparr>err := Some (if e = io_EOF then io_ErrUnexpectedEOF else e), codec := c1,
        trace := trace r @ [EvReadHeader codec_Response]\<rparr>)"
  using assms
  by (simp add: Recv_def Recv_header_def isClosed_def call_ReadHeader_def)

lemma Recv_error_frame:
  assumes "\<not> closed r"
    and "ReadHeader cdc codec_Response (codec r) = ((None, resp), c1)"
    and "Error_m resp \<noteq> []"
    and "ReadBody cdc None c1 = (e2, c2)"
  shows "Recv cdc eos msg r =
     ((case e2 of Some er \<Rightarrow> Some er
       | None \<Rightarrow> Some (if Error_m resp \<noteq> eos then serverError (Error_m resp) else io_EOF)),
      r\<lparr>err := (case e2 of Some er \<Rightarrow> Some er
            | None \<Rightarrow> Some (if Error_m resp \<noteq> eos then serverError (Error_m resp) else io_EOF)),
        codec := c2,
        trace := trace r @ [EvReadHeader codec_Response, EvReadBody None]\<rparr>)"
  using assms
  by (cases e2)
    (simp_all add: Recv_def Recv_header_def Recv_body_def isClosed_def call_ReadHeader_def
      call_ReadBody_def)

lemma Recv_data_frame:
  assumes "\<not> closed r"
    and "ReadHeader cdc codec_Response (codec r) = ((None, resp), c1)"
    and "Error_m resp = []"
    and "ReadBody cdc msg c1 = (e2, c2)"
  shows "Recv cdc eos msg r =
     ((case e2 of Some er \<Rightarrow> Some er | None \<Rightarrow> err r),
      r\<lparr>err := (case e2 of Some er \<Rightarrow> Some er | None \<Rightarrow> err r), codec := c2,
        trace := trace r @ [EvReadHeader codec_Response, EvReadBody msg]\<rparr>)"
  using assms
  by (cases e2)
    (simp_all add: Recv_def Recv_header_def Recv_body_def isClosed_def call_ReadHeader_def
      call_ReadBody_def)

lemma Close_rest_eq:
  "Close_rest cdc eos r =
     (let frame = \<lparr>Id = stream_id r, Target = Service (request r),
            Method = Method_r (request r), Endpoint = Endpoint_r (request r),
            Type = codec_Error, Error_m = eos\<rparr>;
          c1 = (if sendEOS r then snd (Write cdc frame None (codec r)) else codec r)
      in (fst (Close_c cdc c1),
          r\<lparr>codec := snd (Close_c cdc c1),
            trace := trace r @ (if sendEOS r then [EvWrite frame None] else [])
                       @ [EvClose, EvRelease (err r)]\<rparr>))"
  by (simp add: Close_rest_def call_Write_def call_Close_def call_release_def Error_def
      Let_def split: prod.splits)

lemma Close_closed: "closed r \<Longrightarrow> Close cdc eos r = (None, r)"
  by (simp add: Close_def)

lemma Close_open: "\<not> closed r \<Longrightarrow> Close cdc eos r = Close_rest cdc eos (r\<lparr>closed := True\<rparr>)"
  by (simp add: Close_def)

subsection \<open>What a sequence of calls preserves\<close>

lemma run_append: "run cdc eos (xs @ ys) r = run cdc eos ys (run cdc eos xs r)"
  by (induction xs arbitrary: r) simp_all

lemma releases_append: "releases (evs @ evs') = releases evs @ releases evs'"
  by (induction evs rule: releases.induct) simp_all

lemma releases_Send: "releases (trace (snd (Send cdc msg r))) = releases (trace r)"
  by (auto simp: Send_def call_Write_def Let_def releases_append
      split: prod.splits option.splits)

lemma releases_Recv: "releases (trace (snd (Recv cdc eos msg r))) = releases (trace r)"
  by (auto simp: Recv_def Recv_header_def Recv_body_def call_ReadHeader_def call_ReadBody_def
      Let_def releases_append split: prod.splits option.splits sum.splits if_splits)

lemma err_Send: "err r \<noteq> None \<Longrightarrow> err (snd (Send cdc msg r)) \<noteq> None"
  by (auto simp: Send_def call_Write_def Let_def split: prod.splits option.splits)

lemma err_Recv: "err r \<noteq> None \<Longrightarrow> err (snd (Recv cdc eos msg r)) \<noteq> None"
  by (auto simp: Recv_def Recv_header_def Recv_body_def call_ReadHeader_def call_ReadBody_def
      Let_def split: prod.splits option.splits sum.splits if_splits)

lemma err_Close: "err (snd (Close cdc eos r)) = err r"
  by (simp add: Close_def Close_rest_eq Let_def)

lemma err_step: "err r \<noteq> None \<Longrightarrow> err (step cdc eos x r) \<noteq> None"
  by (cases x) (simp_all add: err_Send err_Recv err_Close)

lemma err_run: "err r \<noteq> None \<Longrightarrow> err (run cdc eos xs r) \<noteq> None"
proof (induction xs arbitrary: r)
  case Nil
  then show ?case by simp
next
  case (Cons x xs)
  from Cons.prems have "err (step cdc eos x r) \<noteq> None" by (rule err_step)
  then have "err (run cdc eos xs (step cdc eos x r)) \<noteq> None" by (rule Cons.IH)
  then show ?case by simp
qed

lemma run_no_Close:
  "OpClose \<notin> set xs \<Longrightarrow>
     closed (run cdc eos xs r) = closed r \<and>
     releases (trace (run cdc eos xs r)) = releases (trace r)"
proof (induction xs arbitrary: r)
  case Nil
  show ?case by simp
next
  case (Cons x xs)
  from Cons.prems have x: "x \<noteq> OpClose" and xs: "OpClose \<notin> set xs" by auto
  from x have "closed (step cdc eos x r) = closed r
      \<and> releases (trace (step cdc eos x r)) = releases (trace r)"
    by (cases x) (simp_all add: closed_Send closed_Recv releases_Send releases_Recv)
  with Cons.IH [OF xs, of "step cdc eos x r"] show ?case by simp
qed

lemma run_Close_closed: "closed r \<Longrightarrow> run cdc eos (replicate n OpClose) r = r"
  by (induction n) (simp_all add: Close_closed)

lemma Recv_returns_err: "fst (Recv cdc eos msg r) = err (snd (Recv cdc eos msg r))"
  by (auto simp: Recv_def Recv_header_def Recv_body_def call_ReadHeader_def call_ReadBody_def
      Let_def split: prod.splits option.splits sum.splits if_splits)

lemma releases_Close_rest:
  "releases (trace (snd (Close_rest cdc eos r))) = releases (trace r) @ [err r]"
  by (simp add: Close_rest_eq Let_def releases_append)

lemmas run_defs =
  Send_def Recv_def Recv_header_def Recv_body_def Close_def Close_rest_def Error_def isClosed_def
  call_Write_def call_ReadHeader_def call_ReadBody_def call_Close_def call_release_def
  scripted_def fresh_def Let_def

subsection \<open>Receiving after the end-of-stream frame\<close>

lemma Recv_delivered:
  assumes "\<not> closed r" and "err r = Some io_EOF" and "delivers cdc eos (m # ms) (codec r)"
  shows "fst (Recv cdc eos m r) = Some io_EOF
       \<and> \<not> closed (snd (Recv cdc eos m r))
       \<and> err (snd (Recv cdc eos m r)) = Some io_EOF
       \<and> delivers cdc eos ms (codec (snd (Recv cdc eos m r)))
       \<and> length (trace (snd (Recv cdc eos m r))) = length (trace r) + 2"
proof -
  obtain e resp c1 where h: "ReadHeader cdc codec_Response (codec r) = ((e, resp), c1)"
    by (metis surj_pair)
  with assms(3) have e: "e = None" and f: "Error_m resp = [] \<or> Error_m resp = eos"
    by (auto split: option.splits)
  show ?thesis
  proof (cases "Error_m resp = []")
    case True
    obtain e2 c2 where b: "ReadBody cdc m c1 = (e2, c2)"
      by (metis surj_pair)
    with assms(3) h e True have "e2 = None" and "delivers cdc eos ms c2"
      by (auto split: option.splits)
    with Recv_data_frame [OF assms(1) h [unfolded e] True b, of eos] assms(1,2)
    show ?thesis by simp
  next
    case False
    with f have s: "Error_m resp = eos" by simp
    obtain e2 c2 where b: "ReadBody cdc None c1 = (e2, c2)"
      by (metis surj_pair)
    with assms(3) h e False have "e2 = None" and "delivers cdc eos ms c2"
      by (auto split: option.splits)
    with Recv_error_frame [OF assms(1) h [unfolded e] False b, of eos m] s assms(1)
    show ?thesis by simp
  qed
qed

lemma Recvs_delivered:
  "\<not> closed r \<Longrightarrow> err r = Some io_EOF \<Longrightarrow> delivers cdc eos ms (codec r) \<Longrightarrow>
     fst (Recvs cdc eos ms r) = replicate (length ms) (Some io_EOF)
     \<and> length (trace (snd (Recvs cdc eos ms r))) = length (trace r) + 2 * length ms"
proof (induction ms arbitrary: r)
  case Nil
  show ?case by simp
next
  case (Cons m ms)
  let ?r1 = "snd (Recv cdc eos m r)"
  from Recv_delivered [OF Cons.prems]
  have a: "fst (Recv cdc eos m r) = Some io_EOF" and b: "\<not> closed ?r1"
    and c: "err ?r1 = Some io_EOF" and d: "delivers cdc eos ms (codec ?r1)"
    and l: "length (trace ?r1) = length (trace r) + 2"
    by simp_all
  from Cons.IH [OF b c d] a l show ?case
    by (simp add: split_beta)
qed

section \<open>The claims\<close>

text \<open>
  C1. Once \<^verbatim>\<open>Close\<close> has returned on a stream, then after any further calls, a
  \<^verbatim>\<open>Send\<close> and a \<^verbatim>\<open>Recv\<close> each return \<^verbatim>\<open>errShutdown\<close>, leave it in the
  stream's \<^verbatim>\<open>err\<close> field (what \<^verbatim>\<open>Error\<close> then reads) and change nothing else:
  the trace of codec calls and the codec's state are as before.
\<close>

theorem closed_rejects:
  assumes "r = run cdc eos xs (snd (Close cdc eos r0))"
  shows "Send cdc msg r = (Some errShutdown, r\<lparr>err := Some errShutdown\<rparr>)
       \<and> Recv cdc eos msg r = (Some errShutdown, r\<lparr>err := Some errShutdown\<rparr>)
       \<and> Error (snd (Send cdc msg r)) = Some errShutdown
       \<and> Error (snd (Recv cdc eos msg r)) = Some errShutdown
       \<and> trace (snd (Send cdc msg r)) = trace r \<and> codec (snd (Send cdc msg r)) = codec r
       \<and> trace (snd (Recv cdc eos msg r)) = trace r \<and> codec (snd (Recv cdc eos msg r)) = codec r"
proof -
  have "closed r"
    unfolding assms by (rule closed_run) (rule closed_Close)
  then show ?thesis
    by (simp add: Send_closed Recv_closed Error_def)
qed

theorem closed_rejects_witness:
  "Send scripted (Some ''ping'')
       (run scripted ''EOS'' [OpRecv None, OpClose] (snd (Close scripted ''EOS'' (fresh True []))))
     = (Some errShutdown,
        \<lparr>stream_id = ''7'', closed = True, err = Some errShutdown,
         request = \<lparr>Service = ''bank'', Method_r = ''Bank.Transfer'', Endpoint_r = ''Bank.Transfer''\<rparr>,
         codec = [], sendEOS = True,
         trace = [EvWrite \<lparr>Id = ''7'', Target = ''bank'', Method = ''Bank.Transfer'',
                    Endpoint = ''Bank.Transfer'', Type = codec_Error, Error_m = ''EOS''\<rparr> None,
                  EvClose, EvRelease None]\<rparr>)"
  using closed_rejects [OF refl, of scripted "Some ''ping''" "''EOS''" "[OpRecv None, OpClose]"
      "fresh True []"]
  by (simp add: Close_def Close_rest_eq Recv_closed scripted_def fresh_def Let_def)

text \<open>
  C2. \<^verbatim>\<open>Close\<close> on a stream whose closing transition has already happened returns
  \<^verbatim>\<open>nil\<close> and leaves the stream, the codec and the trace (no frame written, no codec
  close, no release call) exactly as they were.
\<close>

theorem close_idempotent:
  assumes "closed r"
  shows "Close cdc eos r = (None, r)"
  using assms by (simp add: Close_def)

theorem close_idempotent_witness:
  "closed (snd (Close scripted ''EOS'' (fresh True [])))
   \<and> Close scripted ''EOS'' (snd (Close scripted ''EOS'' (fresh True [])))
       = (None, snd (Close scripted ''EOS'' (fresh True [])))
   \<and> trace (snd (Close scripted ''EOS'' (snd (Close scripted ''EOS'' (fresh True [])))))
       = [EvWrite \<lparr>Id = ''7'', Target = ''bank'', Method = ''Bank.Transfer'',
            Endpoint = ''Bank.Transfer'', Type = codec_Error, Error_m = ''EOS''\<rparr> None,
          EvClose, EvRelease None]"
proof -
  have c: "closed (snd (Close scripted ''EOS'' (fresh True [])))"
    by (simp add: Close_def Close_rest_eq fresh_def Let_def)
  have t: "trace (snd (Close scripted ''EOS'' (fresh True [])))
       = [EvWrite \<lparr>Id = ''7'', Target = ''bank'', Method = ''Bank.Transfer'',
            Endpoint = ''Bank.Transfer'', Type = codec_Error, Error_m = ''EOS''\<rparr> None,
          EvClose, EvRelease None]"
    by (simp add: Close_def Close_rest_eq fresh_def Let_def)
  from c t close_idempotent [OF c, of scripted "''EOS''"] show ?thesis by simp
qed

text \<open>
  C3. On a stream that is open, after any sequence of \<^verbatim>\<open>Send\<close> and \<^verbatim>\<open>Recv\<close> calls
  (whatever the codec answers) the release hook has not been called by them, and after one
  or more \<^verbatim>\<open>Close\<close> calls that follow it has been called exactly once more, with the
  value \<^verbatim>\<open>Error()\<close> reads from the stream the \<^verbatim>\<open>Send\<close>/\<^verbatim>\<open>Recv\<close> sequence left.
\<close>

theorem release_exactly_once:
  assumes "\<not> closed r" and "OpClose \<notin> set xs"
  shows "releases (trace (run cdc eos xs r)) = releases (trace r)
       \<and> releases (trace (run cdc eos (xs @ replicate (Suc n) OpClose) r))
           = releases (trace r) @ [Error (run cdc eos xs r)]"
proof -
  let ?r1 = "run cdc eos xs r"
  from run_no_Close [OF assms(2), of cdc eos r] assms(1)
  have op: "\<not> closed ?r1" and rel: "releases (trace ?r1) = releases (trace r)"
    by simp_all
  have "run cdc eos (xs @ replicate (Suc n) OpClose) r
      = run cdc eos (replicate n OpClose) (snd (Close cdc eos ?r1))"
    by (simp add: run_append)
  also have "\<dots> = snd (Close cdc eos ?r1)"
    by (rule run_Close_closed) (rule closed_Close)
  also have "\<dots> = snd (Close_rest cdc eos (?r1\<lparr>closed := True\<rparr>))"
    using op by (simp add: Close_open)
  finally have "releases (trace (run cdc eos (xs @ replicate (Suc n) OpClose) r))
      = releases (trace ?r1) @ [err ?r1]"
    by (simp add: releases_Close_rest)
  with rel show ?thesis by (simp add: Error_def)
qed

theorem release_exactly_once_witness:
  "releases (trace (run scripted ''EOS''
       ([OpSend (Some ''ping''), OpRecv None] @ replicate (Suc 1) OpClose)
       (fresh True [Fail (otherError ''broken pipe'')])))
     = [Some io_ErrUnexpectedEOF]"
proof -
  have a: "\<not> closed (fresh True [Fail (otherError ''broken pipe'')])"
    by (simp add: fresh_def)
  have b: "OpClose \<notin> set [OpSend (Some ''ping''), OpRecv None]"
    by simp
  have c: "releases (trace (fresh True [Fail (otherError ''broken pipe'')])) = []"
    by (simp add: fresh_def)
  have d: "Error (run scripted ''EOS'' [OpSend (Some ''ping''), OpRecv None]
       (fresh True [Fail (otherError ''broken pipe'')])) = Some io_ErrUnexpectedEOF"
    by (simp add: run_defs)
  from release_exactly_once [OF a b, of scripted "''EOS''" 1] c d show ?thesis
    by simp
qed

text \<open>
  C6. The first \<^verbatim>\<open>Close\<close> on an open stream with \<^verbatim>\<open>sendEOS\<close> set makes exactly
  three calls, in this order: one \<^verbatim>\<open>Write\<close> of a frame of type \<^verbatim>\<open>Error\<close> with the
  stream's id, the request's service, method and endpoint, the end-of-stream string as its
  error string and a \<^verbatim>\<open>nil\<close> body; the codec's \<^verbatim>\<open>Close\<close>; the release hook. The
  error the \<^verbatim>\<open>Write\<close> returns is dropped: \<^verbatim>\<open>Close\<close> returns what the codec's
  \<^verbatim>\<open>Close\<close> returns. With \<^verbatim>\<open>sendEOS\<close> unset there is no \<^verbatim>\<open>Write\<close>.
\<close>

theorem eos_on_close:
  assumes "\<not> closed r"
  shows "Close cdc eos r =
     (let frame = \<lparr>Id = stream_id r, Target = Service (request r),
            Method = Method_r (request r), Endpoint = Endpoint_r (request r),
            Type = codec_Error, Error_m = eos\<rparr>;
          c1 = (if sendEOS r then snd (Write cdc frame None (codec r)) else codec r)
      in (fst (Close_c cdc c1),
          r\<lparr>closed := True, codec := snd (Close_c cdc c1),
            trace := trace r @ (if sendEOS r then [EvWrite frame None] else [])
                       @ [EvClose, EvRelease (err r)]\<rparr>))"
  using assms by (simp add: Close_open Close_rest_eq Let_def)

theorem eos_on_close_witness:
  "Close scripted ''EOS'' (fresh True [Fail (otherError ''broken pipe'')])
     = (None,
        \<lparr>stream_id = ''7'', closed = True, err = None,
         request = \<lparr>Service = ''bank'', Method_r = ''Bank.Transfer'', Endpoint_r = ''Bank.Transfer''\<rparr>,
         codec = [], sendEOS = True,
         trace = [EvWrite \<lparr>Id = ''7'', Target = ''bank'', Method = ''Bank.Transfer'',
                    Endpoint = ''Bank.Transfer'', Type = codec_Error, Error_m = ''EOS''\<rparr> None,
                  EvClose, EvRelease None]\<rparr>)
   \<and> trace (snd (Close scripted ''EOS'' (fresh False [Fail (otherError ''broken pipe'')])))
     = [EvClose, EvRelease None]"
proof -
  have a: "\<not> closed (fresh True [Fail (otherError ''broken pipe'')])"
    by (simp add: fresh_def)
  have b: "\<not> closed (fresh False [Fail (otherError ''broken pipe'')])"
    by (simp add: fresh_def)
  from eos_on_close [OF a, of scripted "''EOS''"] eos_on_close [OF b, of scripted "''EOS''"]
  show ?thesis
    by (simp add: scripted_def fresh_def Let_def)
qed

text \<open>
  C7. When the header read of a \<^verbatim>\<open>Recv\<close> on an open stream fails with
  \<^verbatim>\<open>io.EOF\<close>, \<^verbatim>\<open>Recv\<close> stores and returns \<^verbatim>\<open>io.ErrUnexpectedEOF\<close>; when it
  fails with any other error, \<^verbatim>\<open>Recv\<close> stores and returns that error. No body read
  follows. The second conjunct is the decision itself, on any stream \<open>r'\<close> the header read
  may return to: \<^verbatim>\<open>io.EOF\<close> is replaced only while the stream is not closed.
\<close>

theorem header_read_failure:
  assumes "\<not> closed r"
    and "ReadHeader cdc codec_Response (codec r) = ((Some e, resp), c1)"
  shows "Recv cdc eos msg r =
       (Some (if e = io_EOF then io_ErrUnexpectedEOF else e),
        r\<lparr>err := Some (if e = io_EOF then io_ErrUnexpectedEOF else e), codec := c1,
          trace := trace r @ [EvReadHeader codec_Response]\<rparr>)
     \<and> Recv_header eos msg (Some e) resp r' =
       Inl (if e = io_EOF \<and> \<not> closed r'
            then (Some io_ErrUnexpectedEOF, r'\<lparr>err := Some io_ErrUnexpectedEOF\<rparr>)
            else (Some e, r'\<lparr>err := Some e\<rparr>))"
  using assms
  by (simp add: Recv_def Recv_header_def isClosed_def call_ReadHeader_def)

theorem header_read_failure_witness:
  "Recv scripted ''EOS'' (Some ''out'') (fresh False [])
     = (Some io_ErrUnexpectedEOF,
        (fresh False [])\<lparr>err := Some io_ErrUnexpectedEOF,
          trace := [EvReadHeader codec_Response]\<rparr>)
   \<and> Recv scripted ''EOS'' (Some ''out'') (fresh False [Fail (otherError ''reset'')])
     = (Some (otherError ''reset''),
        (fresh False [])\<lparr>err := Some (otherError ''reset''),
          trace := [EvReadHeader codec_Response]\<rparr>)"
proof -
  have a: "\<not> closed (fresh False [])"
    and b: "\<not> closed (fresh False [Fail (otherError ''reset'')])"
    by (simp_all add: fresh_def)
  have c: "ReadHeader scripted codec_Response (codec (fresh False []))
      = ((Some io_EOF, reply_header codec_Response Ok), [])"
    by (simp add: scripted_def fresh_def)
  have d: "ReadHeader scripted codec_Response (codec (fresh False [Fail (otherError ''reset'')]))
      = ((Some (otherError ''reset''), reply_header codec_Response (Fail (otherError ''reset''))), [])"
    by (simp add: scripted_def fresh_def)
  from header_read_failure [OF a c, where eos = "''EOS''" and msg = "Some ''out''"
      and r' = "fresh False []"]
    header_read_failure [OF b d, where eos = "''EOS''" and msg = "Some ''out''"
      and r' = "fresh False []"]
  show ?thesis by (simp add: fresh_def)
qed

text \<open>
  C4. As stated the claim fails: a stream is not closed by the end-of-stream frame, so the
  next \<^verbatim>\<open>Recv\<close> reads the transport again and returns whatever that read gives. In
  the run below the first \<^verbatim>\<open>Recv\<close> reads the end-of-stream frame and returns
  \<^verbatim>\<open>io.EOF\<close>; the transport then has nothing more, and the second \<^verbatim>\<open>Recv\<close>
  makes a third codec call and returns \<^verbatim>\<open>io.ErrUnexpectedEOF\<close>.
\<close>

theorem sentinel_sticky_counterexample:
  "fst (Recv scripted ''EOS'' (Some ''out'') (fresh False [Header ''EOS'', Ok])) = Some io_EOF
   \<and> fst (Recv scripted ''EOS'' (Some ''out'')
        (snd (Recv scripted ''EOS'' (Some ''out'') (fresh False [Header ''EOS'', Ok]))))
       = Some io_ErrUnexpectedEOF
   \<and> trace (snd (Recv scripted ''EOS'' (Some ''out'')
        (snd (Recv scripted ''EOS'' (Some ''out'') (fresh False [Header ''EOS'', Ok])))))
       = [EvReadHeader codec_Response, EvReadBody None, EvReadHeader codec_Response]"
  by (simp add: run_defs)

text \<open>
  C4, amended. When a \<^verbatim>\<open>Recv\<close> on an open stream reads a header carrying the
  end-of-stream string and the discard read that follows succeeds, it returns
  \<^verbatim>\<open>io.EOF\<close>. Every later \<^verbatim>\<open>Recv\<close> reads a header and a body from the transport
  again (two more codec calls each), and returns \<^verbatim>\<open>io.EOF\<close> as long as the transport
  answers all these reads without a failure and without a remote error.
\<close>

theorem sentinel_then_graceful:
  assumes "eos \<noteq> []" and "\<not> closed r"
    and "ReadHeader cdc codec_Response (codec r) = ((None, resp), c1)"
    and "Error_m resp = eos"
    and "ReadBody cdc None c1 = (None, c2)"
    and "delivers cdc eos ms c2"
  shows "fst (Recv cdc eos m r) = Some io_EOF
       \<and> fst (Recvs cdc eos ms (snd (Recv cdc eos m r))) = replicate (length ms) (Some io_EOF)
       \<and> length (trace (snd (Recvs cdc eos ms (snd (Recv cdc eos m r)))))
           = length (trace r) + 2 + 2 * length ms"
proof -
  from assms(1,4) have ne: "Error_m resp \<noteq> []" by simp
  from Recv_error_frame [OF assms(2,3) ne assms(5), of eos m] assms(4)
  have R: "Recv cdc eos m r =
      (Some io_EOF, r\<lparr>err := Some io_EOF, codec := c2,
         trace := trace r @ [EvReadHeader codec_Response, EvReadBody None]\<rparr>)"
    by simp
  let ?r1 = "snd (Recv cdc eos m r)"
  from R assms(2,6) have "\<not> closed ?r1" and "err ?r1 = Some io_EOF"
    and "delivers cdc eos ms (codec ?r1)"
    and "length (trace ?r1) = length (trace r) + 2"
    by simp_all
  with Recvs_delivered [of ?r1 cdc eos ms] R show ?thesis by simp
qed

theorem sentinel_then_graceful_witness:
  "fst (Recv scripted ''EOS'' (Some ''out'')
        (fresh False [Header ''EOS'', Ok, Header [], Ok, Header ''EOS'', Ok])) = Some io_EOF
   \<and> fst (Recvs scripted ''EOS'' [Some ''out'', Some ''out'']
        (snd (Recv scripted ''EOS'' (Some ''out'')
          (fresh False [Header ''EOS'', Ok, Header [], Ok, Header ''EOS'', Ok]))))
       = [Some io_EOF, Some io_EOF]
   \<and> length (trace (snd (Recvs scripted ''EOS'' [Some ''out'', Some ''out'']
        (snd (Recv scripted ''EOS'' (Some ''out'')
          (fresh False [Header ''EOS'', Ok, Header [], Ok, Header ''EOS'', Ok]))))))
       = 6"
proof -
  let ?r = "fresh False [Header ''EOS'', Ok, Header [], Ok, Header ''EOS'', Ok]"
  have a: "''EOS'' \<noteq> []" by simp
  have b: "\<not> closed ?r" by (simp add: fresh_def)
  have c: "ReadHeader scripted codec_Response (codec ?r)
      = ((None, reply_header codec_Response (Header ''EOS'')),
         [Ok, Header [], Ok, Header ''EOS'', Ok])"
    by (simp add: scripted_def fresh_def)
  have d: "Error_m (reply_header codec_Response (Header ''EOS'')) = ''EOS''" by simp
  have e: "ReadBody scripted None [Ok, Header [], Ok, Header ''EOS'', Ok]
      = (None, [Header [], Ok, Header ''EOS'', Ok])"
    by (simp add: scripted_def)
  have f: "delivers scripted ''EOS'' [Some ''out'', Some ''out'']
      [Header [], Ok, Header ''EOS'', Ok]"
    by (simp add: scripted_def)
  have g: "length (trace ?r) = 0" by (simp add: fresh_def)
  from sentinel_then_graceful [OF a b c d e f, of "Some ''out''"] g show ?thesis
    by simp
qed

text \<open>
  C5. As stated the claim fails: \<^verbatim>\<open>Recv\<close> ends with \<^verbatim>\<open>return r.err\<close>, and a call
  whose reads both succeed does not touch \<^verbatim>\<open>r.err\<close>. In the run below a \<^verbatim>\<open>Send\<close>
  fails in the transport, then a \<^verbatim>\<open>Recv\<close> reads a header with an empty error string
  and decodes the body without error, and returns the error of the \<^verbatim>\<open>Send\<close>.
\<close>

theorem recv_success_nil_counterexample:
  "fst (Send scripted (Some ''ping'')
        (fresh False [Fail (otherError ''broken pipe''), Header [], Ok]))
       = Some (otherError ''broken pipe'')
   \<and> ReadHeader scripted codec_Response
        (codec (snd (Send scripted (Some ''ping'')
          (fresh False [Fail (otherError ''broken pipe''), Header [], Ok]))))
       = ((None, \<lparr>Id = [], Target = [], Method = [], Endpoint = [],
                   Type = codec_Response, Error_m = []\<rparr>), [Ok])
   \<and> ReadBody scripted (Some ''out'') [Ok] = (None, [])
   \<and> fst (Recv scripted ''EOS'' (Some ''out'')
        (snd (Send scripted (Some ''ping'')
          (fresh False [Fail (otherError ''broken pipe''), Header [], Ok]))))
       = Some (otherError ''broken pipe'')"
  by (simp add: run_defs)

text \<open>
  C5, amended. \<^verbatim>\<open>Recv\<close> always returns the stream's last error as it stands when the
  call ends. When the call fully succeeds (open stream, header read with an empty error
  string, body decoded into the caller's message without error), that is the last error
  recorded before the call, which the call leaves in place: \<^verbatim>\<open>nil\<close> exactly when no
  earlier operation had recorded an error.
\<close>

theorem recv_returns_last_error:
  assumes "\<not> closed r"
    and "ReadHeader cdc codec_Response (codec r) = ((None, resp), c1)"
    and "Error_m resp = []"
    and "ReadBody cdc msg c1 = (None, c2)"
  shows "Recv cdc eos msg r =
       (err r, r\<lparr>codec := c2,
                trace := trace r @ [EvReadHeader codec_Response, EvReadBody msg]\<rparr>)
     \<and> fst (Recv cdc eos msg' r') = Error (snd (Recv cdc eos msg' r'))"
  using Recv_data_frame [OF assms, of eos] Recv_returns_err [of cdc eos msg' r']
  by (simp add: Error_def)

theorem recv_returns_last_error_witness:
  "Recv scripted ''EOS'' (Some ''out'') (fresh False [Header [], Ok])
     = (None, (fresh False [])\<lparr>trace := [EvReadHeader codec_Response, EvReadBody (Some ''out'')]\<rparr>)"
proof -
  have a: "\<not> closed (fresh False [Header [], Ok])" by (simp add: fresh_def)
  have b: "ReadHeader scripted codec_Response (codec (fresh False [Header [], Ok]))
      = ((None, reply_header codec_Response (Header [])), [Ok])"
    by (simp add: scripted_def fresh_def)
  have c: "Error_m (reply_header codec_Response (Header [])) = []" by simp
  have d: "ReadBody scripted (Some ''out'') [Ok] = (None, [])" by (simp add: scripted_def)
  from recv_returns_last_error [OF a b c d, where eos = "''EOS''" and msg' = None
      and r' = "fresh False []"]
  show ?thesis by (simp add: fresh_def)
qed

text \<open>
  C8. As stated the claim fails when the discard read itself fails: its error then
  replaces the remote error, as the stream's last error and as the value returned. In the
  run below the header carries \<open>insufficient funds\<close> and the discard read fails.
\<close>

theorem remote_error_counterexample:
  "Recv scripted ''EOS'' (Some ''out'')
       (fresh False [Header ''insufficient funds'', Fail (otherError ''short read'')])
     = (Some (otherError ''short read''),
        (fresh False [])\<lparr>err := Some (otherError ''short read''),
          trace := [EvReadHeader codec_Response, EvReadBody None]\<rparr>)"
  by (simp add: run_defs)

text \<open>
  C8, amended. When the header read of a \<^verbatim>\<open>Recv\<close> on an open stream succeeds with a
  non-empty error string other than the end-of-stream string, the body is read with a
  \<^verbatim>\<open>nil\<close> target and never into the caller's message. If that discard read succeeds,
  \<^verbatim>\<open>serverError\<close> of the string is the stream's last error and the value returned; if
  it fails, its error is.
\<close>

theorem remote_error_frame:
  assumes "\<not> closed r"
    and "ReadHeader cdc codec_Response (codec r) = ((None, resp), c1)"
    and "Error_m resp \<noteq> []" and "Error_m resp \<noteq> eos"
    and "ReadBody cdc None c1 = (e2, c2)"
  shows "Recv cdc eos msg r =
       ((case e2 of Some er \<Rightarrow> Some er | None \<Rightarrow> Some (serverError (Error_m resp))),
        r\<lparr>err := (case e2 of Some er \<Rightarrow> Some er | None \<Rightarrow> Some (serverError (Error_m resp))),
          codec := c2,
          trace := trace r @ [EvReadHeader codec_Response, EvReadBody None]\<rparr>)"
  using Recv_error_frame [OF assms(1,2,3,5), of eos msg] assms(4)
  by simp

theorem remote_error_frame_witness:
  "Recv scripted ''EOS'' (Some ''out'') (fresh False [Header ''insufficient funds'', Ok])
     = (Some (serverError ''insufficient funds''),
        (fresh False [])\<lparr>err := Some (serverError ''insufficient funds''),
          trace := [EvReadHeader codec_Response, EvReadBody None]\<rparr>)"
proof -
  let ?r = "fresh False [Header ''insufficient funds'', Ok]"
  have a: "\<not> closed ?r" by (simp add: fresh_def)
  have b: "ReadHeader scripted codec_Response (codec ?r)
      = ((None, reply_header codec_Response (Header ''insufficient funds'')), [Ok])"
    by (simp add: scripted_def fresh_def)
  have c: "Error_m (reply_header codec_Response (Header ''insufficient funds'')) \<noteq> []"
    and d: "Error_m (reply_header codec_Response (Header ''insufficient funds'')) \<noteq> ''EOS''"
    by simp_all
  have e: "ReadBody scripted None [Ok] = (None, [])" by (simp add: scripted_def)
  from remote_error_frame [OF a b c d e, of "Some ''out''"] show ?thesis
    by (simp add: fresh_def)
qed

text \<open>
  C9. As stated the claim fails in its second half: every failure path assigns
  \<^verbatim>\<open>r.err\<close> without looking at what is there. In the run below a \<^verbatim>\<open>Recv\<close> records
  the remote error \<open>insufficient funds\<close>; the \<^verbatim>\<open>Send\<close> that follows fails in the
  transport and its error replaces the remote error, which is neither the error recorded
  before nor \<^verbatim>\<open>io.EOF\<close>.
\<close>

theorem last_error_overwrite_counterexample:
  "err (snd (Recv scripted ''EOS'' (Some ''out'')
        (fresh False [Header ''insufficient funds'', Ok, Fail (otherError ''broken pipe'')])))
       = Some (serverError ''insufficient funds'')
   \<and> err (snd (Send scripted (Some ''ping'')
        (snd (Recv scripted ''EOS'' (Some ''out'')
          (fresh False [Header ''insufficient funds'', Ok, Fail (otherError ''broken pipe'')])))))
       = Some (otherError ''broken pipe'')
   \<and> Some (otherError ''broken pipe'') \<noteq> Some (serverError ''insufficient funds'')
   \<and> Some (otherError ''broken pipe'') \<noteq> Some io_EOF"
  by (simp add: run_defs)

text \<open>
  C9, amended. Over any sequence of \<^verbatim>\<open>Send\<close>, \<^verbatim>\<open>Recv\<close> and \<^verbatim>\<open>Close\<close> calls,
  once the stream's last error is not \<^verbatim>\<open>nil\<close> it is never \<^verbatim>\<open>nil\<close> again. Which
  error it holds is not kept: a later failure stores its own error over it, as
  \<^verbatim>\<open>Send\<close> and \<^verbatim>\<open>Recv\<close> after \<^verbatim>\<open>Close\<close> do with \<^verbatim>\<open>errShutdown\<close>.
\<close>

theorem last_error_never_cleared:
  assumes "err r \<noteq> None"
  shows "err (run cdc eos xs r) \<noteq> None
       \<and> err (snd (Send cdc msg (snd (Close cdc eos r)))) = Some errShutdown
       \<and> err (snd (Recv cdc eos msg (snd (Close cdc eos r)))) = Some errShutdown"
proof -
  have "closed (snd (Close cdc eos r))" by (rule closed_Close)
  with err_run [OF assms, of cdc eos xs] show ?thesis
    by (simp add: Send_closed Recv_closed)
qed

theorem last_error_never_cleared_witness:
  "err (run scripted ''EOS'' [OpSend (Some ''ping''), OpRecv (Some ''out''), OpClose]
        (snd (Send scripted (Some ''ping'')
          (fresh True [Fail (otherError ''broken pipe''), Ok, Header [], Ok]))))
     = Some (otherError ''broken pipe'')"
proof -
  let ?r = "snd (Send scripted (Some ''ping'')
      (fresh True [Fail (otherError ''broken pipe''), Ok, Header [], Ok]))"
  have a: "err ?r \<noteq> None" by (simp add: run_defs)
  from last_error_never_cleared [OF a, of scripted "''EOS''"
      "[OpSend (Some ''ping''), OpRecv (Some ''out''), OpClose]" None]
  show ?thesis by (simp add: run_defs)
qed

text \<open>
  C10. When a \<^verbatim>\<open>Recv\<close> on an open stream reads the end-of-stream frame (and its
  discard read succeeds), it returns \<^verbatim>\<open>io.EOF\<close>; if \<^verbatim>\<open>Close\<close> is then called,
  after any \<^verbatim>\<open>Send\<close> and \<^verbatim>\<open>Recv\<close> calls that leave the last error as it is, the
  release hook is called once with \<^verbatim>\<open>io.EOF\<close>, which is not \<^verbatim>\<open>nil\<close>. The last two
  conjuncts are the other path: on a stream \<open>r'\<close> that was closed while a header read was
  under way, a header read that reports \<^verbatim>\<open>io.EOF\<close> is recorded as \<^verbatim>\<open>io.EOF\<close>,
  and the rest of that \<^verbatim>\<open>Close\<close> hands the release hook the same value.
\<close>

theorem graceful_close_releases_EOF:
  assumes "eos \<noteq> []" and "\<not> closed r"
    and "ReadHeader cdc codec_Response (codec r) = ((None, resp), c1)"
    and "Error_m resp = eos"
    and "ReadBody cdc None c1 = (None, c2)"
    and "OpClose \<notin> set xs"
    and "err (run cdc eos xs (snd (Recv cdc eos msg r))) = err (snd (Recv cdc eos msg r))"
    and "closed r'"
  shows "fst (Recv cdc eos msg r) = Some io_EOF
       \<and> releases (trace (snd (Close cdc eos (run cdc eos xs (snd (Recv cdc eos msg r))))))
           = releases (trace r) @ [Some io_EOF]
       \<and> Recv_header eos msg' (Some io_EOF) resp' r' = Inl (Some io_EOF, r'\<lparr>err := Some io_EOF\<rparr>)
       \<and> releases (trace (snd (Close_rest cdc eos (r'\<lparr>err := Some io_EOF\<rparr>))))
           = releases (trace r') @ [Some io_EOF]"
proof -
  let ?r1 = "snd (Recv cdc eos msg r)"
  let ?r2 = "run cdc eos xs ?r1"
  from assms(1,4) have ne: "Error_m resp \<noteq> []" by simp
  from Recv_error_frame [OF assms(2,3) ne assms(5), of eos msg] assms(4)
  have R: "Recv cdc eos msg r =
      (Some io_EOF, r\<lparr>err := Some io_EOF, codec := c2,
         trace := trace r @ [EvReadHeader codec_Response, EvReadBody None]\<rparr>)"
    by simp
  from R assms(2) have r1: "\<not> closed ?r1" "err ?r1 = Some io_EOF"
    "releases (trace ?r1) = releases (trace r)"
    by (simp_all add: releases_append)
  from run_no_Close [OF assms(6), of cdc eos ?r1] r1
  have r2: "\<not> closed ?r2" "releases (trace ?r2) = releases (trace r)"
    by simp_all
  from assms(7) r1 have e2: "err ?r2 = Some io_EOF" by simp
  from r2(1) have "Close cdc eos ?r2 = Close_rest cdc eos (?r2\<lparr>closed := True\<rparr>)"
    by (rule Close_open)
  then have "releases (trace (snd (Close cdc eos ?r2))) = releases (trace ?r2) @ [err ?r2]"
    by (simp add: releases_Close_rest)
  with r2(2) e2 have A: "releases (trace (snd (Close cdc eos ?r2)))
      = releases (trace r) @ [Some io_EOF]"
    by simp
  from assms(8) have B: "Recv_header eos msg' (Some io_EOF) resp' r'
      = Inl (Some io_EOF, r'\<lparr>err := Some io_EOF\<rparr>)"
    by (simp add: Recv_header_def isClosed_def)
  have C: "releases (trace (snd (Close_rest cdc eos (r'\<lparr>err := Some io_EOF\<rparr>))))
      = releases (trace r') @ [Some io_EOF]"
    by (simp add: releases_Close_rest)
  from R A B C show ?thesis by simp
qed

theorem graceful_close_releases_EOF_witness:
  "fst (Recv scripted ''EOS'' (Some ''out'') (fresh True [Header ''EOS'', Ok])) = Some io_EOF
   \<and> releases (trace (snd (Close scripted ''EOS''
        (run scripted ''EOS'' [OpSend (Some ''ping'')]
          (snd (Recv scripted ''EOS'' (Some ''out'') (fresh True [Header ''EOS'', Ok])))))))
       = [Some io_EOF]"
proof -
  let ?r = "fresh True [Header ''EOS'', Ok]"
  let ?r' = "(fresh True [])\<lparr>closed := True\<rparr>"
  have a: "''EOS'' \<noteq> []" by simp
  have b: "\<not> closed ?r" by (simp add: fresh_def)
  have c: "ReadHeader scripted codec_Response (codec ?r)
      = ((None, reply_header codec_Response (Header ''EOS'')), [Ok])"
    by (simp add: scripted_def fresh_def)
  have d: "Error_m (reply_header codec_Response (Header ''EOS'')) = ''EOS''" by simp
  have e: "ReadBody scripted None [Ok] = (None, [])" by (simp add: scripted_def)
  have f: "OpClose \<notin> set [OpSend (Some ''ping'')]" by simp
  have g: "err (run scripted ''EOS'' [OpSend (Some ''ping'')]
        (snd (Recv scripted ''EOS'' (Some ''out'') ?r)))
      = err (snd (Recv scripted ''EOS'' (Some ''out'') ?r))"
    by (simp add: run_defs)
  have h: "closed ?r'" by simp
  have i: "releases (trace ?r) = []" by (simp add: fresh_def)
  from graceful_close_releases_EOF [OF a b c d e f g h, where msg' = None
      and resp' = "reply_header codec_Response Ok"] i
  show ?thesis by simp
qed

end
